theory Spec2Isabelle
  imports Complex_Main "HOL-Library.Sublist"
begin

section \<open>Focus Timer: data model\<close>

text \<open>
  The development embeds the modular core of the extension: \<open>scoringEngine\<close>,
  \<open>eventBus\<close>, \<open>sessionManager\<close>, \<open>storageAdapter\<close>, \<open>timerEngine\<close>, the
  \<open>distractionTracking\<close> feature and the wiring of \<open>background.js\<close>.

  JavaScript numbers that the code only ever uses as counters, seconds or millisecond
  timestamps are \<open>int\<close>. A property that may be missing from an object is an \<open>option\<close>;
  the idiom \<open>x || 0\<close> is \<open>orZero\<close>. Every \<open>async\<close> function is one atomic transformation
  of the world: interleavings at \<open>await\<close> points are outside the model. All reads of
  \<open>Date.now()\<close> inside one such operation see the same instant, the field \<open>now\<close> of the
  environment. A function that returns the merged \<open>FocusState\<close> returns, in the model,
  the world; the returned state is \<open>getState\<close> of that world. A leading underscore of a
  source name is dropped, and \<open>complete\<close> of the timer engine is \<open>complete_op\<close>, the
  plain name being a constant of HOL.
\<close>

record Env =
  now :: int              \<comment> \<open>\<open>Date.now()\<close>, milliseconds since the epoch\<close>
  tzOffsetMinutes :: int  \<comment> \<open>local time minus UTC, in minutes, taken as fixed\<close>
  random4 :: string       \<comment> \<open>\<open>Math.random().toString(36).slice(2, 6)\<close>\<close>

type_synonym session_id = "int \<times> string"
  \<comment> \<open>\<open>generateId\<close>: the timestamp that is printed in base 36, and the random suffix\<close>

type_synonym dateKey = int
  \<comment> \<open>a \<open>YYYY-MM-DD\<close> string, represented by the number of that day since 1970-01-01\<close>

record SessionObject =
  id_s :: session_id
  startTime :: int
  duration_s :: int
  tabSwitchCount :: "int option"
  distractionVisits :: "int option"
  distractionSeconds :: "int option"
  lastDistractionDomain :: "string option"
  interrupted :: "bool option"
  endTime :: "int option"
  completed :: "bool option"
  score_s :: "int option"
  qualityLabel_s :: "string option"

datatype Status = Idle | Running | Paused

record PendingReflection =
  sessionId :: session_id
  score_r :: "int option"
  qualityLabel_r :: "string option"
  duration_r :: int

record FocusState =
  status :: Status
  duration :: int
  remaining :: int
  startedAt :: "int option"
  pausedAt :: "int option"
  elapsedBeforePause :: int
  currentSession :: "SessionObject option"
  pendingReflection :: "PendingReflection option"

record DailyStats =
  date :: dateKey
  totalFocusMinutes :: int
  sessionsCompleted :: int
  totalTabSwitches :: int
  totalDistractionVisits :: int
  totalDistractionSeconds :: int
  streak :: int

record DayAggregate =
  focusMinutes :: int
  sessions_d :: int
  distractionMinutes :: int
  totalScore :: int
  scoreCount :: int
  qualityCounts :: "string \<rightharpoonup> int"

record WeeklyData =
  weekStart :: dateKey
  days :: "dateKey \<rightharpoonup> DayAggregate"

datatype AlarmInfo = DelayInMinutes rat | PeriodInMinutes rat

datatype BadgeText = BadgeMinutes int | BadgePauseGlyph | BadgeEmpty

datatype Payload =
    PSessionStart SessionObject int
  | PEmpty
  | PTick int
  | PDistraction string int
  | PScoreCalculated int string SessionObject
  | PSessionEnd SessionObject int string

text \<open>
  The world: the storage keys \<open>focusState\<close>, \<open>sessions\<close>, \<open>focusStats\<close> and
  \<open>weeklyData\<close> (an absent key is \<open>None\<close>, or the empty list for the history), the
  scheduled alarms by name, the badge, the two module variables of
  \<open>distractionTracking\<close>, and the log of the events that were emitted on the bus.
\<close>

record World =
  focusState :: "FocusState option"
  sessions :: "SessionObject list"
  focusStats :: "DailyStats option"
  weeklyData :: "WeeklyData option"
  alarms :: "string \<rightharpoonup> AlarmInfo"
  badgeText :: BadgeText
  badgeColor :: "string option"
  distractionStart :: "int option"
  distractionTabId :: "int option"
  emitted :: "(string \<times> Payload) list"

definition orZero :: "int option \<Rightarrow> int" where
  "orZero x = (case x of None \<Rightarrow> 0 | Some v \<Rightarrow> v)"


text \<open>\<open>Math.round\<close>: the nearest integer, a tie going up. \<open>Math.floor\<close> of a quotient of
  integers is \<open>div\<close>.\<close>

definition Math_round :: "rat \<Rightarrow> int" where
  "Math_round x = \<lfloor>x + 1 / 2\<rfloor>"

definition Math_ceil :: "rat \<Rightarrow> int" where
  "Math_ceil x = \<lceil>x\<rceil>"

section \<open>scoringEngine\<close>

record Tier =
  label :: string
  min_t :: int
  color :: string

definition QUALITY_TIERS :: "Tier list" where
  "QUALITY_TIERS =
    [\<lparr>label = ''Deep Work'', min_t = 90, color = ''#818cf8''\<rparr>,
     \<lparr>label = ''Focused'', min_t = 70, color = ''#4ade80''\<rparr>,
     \<lparr>label = ''Fragmented'', min_t = 40, color = ''#fbbf24''\<rparr>,
     \<lparr>label = ''Distracted'', min_t = 0, color = ''#f87171''\<rparr>]"


definition getTier :: "int \<Rightarrow> Tier" where
  "getTier sc =
    (case find (\<lambda>t. sc \<ge> min_t t) QUALITY_TIERS of
       Some t \<Rightarrow> t
     | None \<Rightarrow> QUALITY_TIERS ! (length QUALITY_TIERS - 1))"


definition qualityColor :: "int \<Rightarrow> string" where
  "qualityColor sc = color (getTier sc)"




section \<open>eventBus\<close>

text \<open>
  A handler runs on the state that handlers can see and change; it either returns or
  throws. The model gives the state after the call and the thrown value, if any. The
  state carries the console, where \<open>wrap\<close> writes. The registry maps a hook name to its
  handlers in registration order. Handlers that change the registry while \<open>emit\<close>
  iterates, and \<open>off\<close> (which compares function references), are not modelled.
\<close>

datatype ConsoleEntry =
    HandlerError string string string
  | WarnNameVersion
  | WarnAlreadyRegistered string
  | WarnUnknownHook string string
  | WarnNotFunction string string
  | WarnOnUnknownHook string
  | InfoRegistered string string nat

record 'a BusWorld =
  console :: "ConsoleEntry list"
  app :: 'a

type_synonym ('p, 'a) handler = "'p \<Rightarrow> 'a BusWorld \<Rightarrow> 'a BusWorld \<times> string option"



definition HOOK_SESSION_START :: string where "HOOK_SESSION_START = ''onSessionStart''"
definition HOOK_SESSION_END :: string where "HOOK_SESSION_END = ''onSessionEnd''"
definition HOOK_DISTRACTION :: string where "HOOK_DISTRACTION = ''onDistraction''"
definition HOOK_SCORE_CALCULATED :: string where "HOOK_SCORE_CALCULATED = ''onScoreCalculated''"
definition HOOK_FOCUS_MODE_ENABLED :: string where "HOOK_FOCUS_MODE_ENABLED = ''onFocusModeEnabled''"
definition HOOK_FOCUS_MODE_DISABLED :: string where "HOOK_FOCUS_MODE_DISABLED = ''onFocusModeDisabled''"
definition HOOK_TICK :: string where "HOOK_TICK = ''onTick''"



definition wrap :: "string \<Rightarrow> string \<Rightarrow> ('p, 'a) handler \<Rightarrow> ('p, 'a) handler" where
  "wrap source hookName fn = (\<lambda>payload w.
     case fn payload w of
       (w', None) \<Rightarrow> (w', None)
     | (w', Some err) \<Rightarrow>
         (w'\<lparr>console := console w' @ [HandlerError source hookName err]\<rparr>, None))"








section \<open>Calendar keys\<close>

text \<open>
  A \<open>Date\<close> is its time value in milliseconds. \<open>toISOString().slice(0, 10)\<close> prints the
  calendar day of the instant in UTC; the local-time getters and \<open>setDate\<close> work on the
  instant shifted by the zone offset. With a fixed offset, \<open>d.setDate(d.getDate() - k)\<close>
  moves the instant back by \<open>k\<close> whole days.
\<close>

definition msPerDay :: int where
  "msPerDay = 86400000"

definition toISODate :: "int \<Rightarrow> dateKey" where
  "toISODate t = t div msPerDay"

definition localDate :: "Env \<Rightarrow> int \<Rightarrow> dateKey" where
  "localDate env t = (t + tzOffsetMinutes env * 60000) div msPerDay"

definition getDay :: "Env \<Rightarrow> int \<Rightarrow> int" where
  "getDay env t = (localDate env t + 4) mod 7"
  \<comment> \<open>0 is Sunday; 1970-01-01 was a Thursday\<close>

definition setDateBack :: "int \<Rightarrow> int \<Rightarrow> int" where
  "setDateBack t k = t - k * msPerDay"

text \<open>The Monday of the local calendar week of an instant, as a local date: what the
  specification asks of the week anchor.\<close>

definition localMonday :: "Env \<Rightarrow> int \<Rightarrow> dateKey" where
  "localMonday env t = localDate env t - (getDay env t + 6) mod 7"

section \<open>storageAdapter\<close>

definition defaultState :: FocusState where
  "defaultState =
    \<lparr>status = Idle, duration = 25 * 60, remaining = 25 * 60, startedAt = None,
     pausedAt = None, elapsedBeforePause = 0, currentSession = None,
     pendingReflection = None\<rparr>"

definition getState :: "World \<Rightarrow> FocusState" where
  "getState w = (case focusState w of None \<Rightarrow> defaultState | Some s \<Rightarrow> s)"

text \<open>\<open>patchState\<close>: the patch is the function that overwrites the fields the object
  literal names.\<close>

definition patchState :: "(FocusState \<Rightarrow> FocusState) \<Rightarrow> World \<Rightarrow> World" where
  "patchState patch w = w\<lparr>focusState := Some (patch (getState w))\<rparr>"

definition weekKey :: "Env \<Rightarrow> dateKey" where
  "weekKey env =
    (let d = now env;
         mon = setDateBack d ((getDay env d + 6) mod 7)
     in toISODate mon)"

definition getWeeklyData :: "Env \<Rightarrow> World \<Rightarrow> WeeklyData \<times> World" where
  "getWeeklyData env w =
    (let wk = weekKey env in
     case weeklyData w of
       None \<Rightarrow>
         (let fresh = \<lparr>weekStart = wk, days = Map.empty\<rparr>
          in (fresh, w\<lparr>weeklyData := Some fresh\<rparr>))
     | Some data \<Rightarrow>
         if weekStart data \<noteq> wk then
           (let fresh = \<lparr>weekStart = wk, days = Map.empty\<rparr>
            in (fresh, w\<lparr>weeklyData := Some fresh\<rparr>))
         else (data, w))"



section \<open>sessionManager\<close>

definition generateId :: "Env \<Rightarrow> session_id" where
  "generateId env = (now env, random4 env)"

definition createSession :: "Env \<Rightarrow> int \<Rightarrow> SessionObject" where
  "createSession env dur =
    \<lparr>id_s = generateId env, startTime = now env, duration_s = dur,
     tabSwitchCount = Some 0, distractionVisits = Some 0, distractionSeconds = Some 0,
     lastDistractionDomain = None, interrupted = Some False,
     endTime = None, completed = None, score_s = None, qualityLabel_s = None\<rparr>"


definition recordDistractionVisit :: "SessionObject \<Rightarrow> string \<Rightarrow> SessionObject" where
  "recordDistractionVisit session domain =
    session\<lparr>distractionVisits := Some (orZero (distractionVisits session) + 1),
            lastDistractionDomain := Some domain\<rparr>"

definition addDistractionTime :: "SessionObject \<Rightarrow> int \<Rightarrow> SessionObject" where
  "addDistractionTime session seconds =
    session\<lparr>distractionSeconds := Some (orZero (distractionSeconds session) + seconds)\<rparr>"

definition markInterrupted :: "SessionObject \<Rightarrow> SessionObject" where
  "markInterrupted session = session\<lparr>interrupted := Some True\<rparr>"

definition todayKey :: "Env \<Rightarrow> dateKey" where
  "todayKey env = toISODate (now env)"

definition calcStreak :: "Env \<Rightarrow> DailyStats option \<Rightarrow> int" where
  "calcStreak env prev =
    (case prev of
       None \<Rightarrow> 0
     | Some p \<Rightarrow>
         (let yesterday = setDateBack (now env) 1;
              yKey = toISODate yesterday
          in if date p = yKey \<and> totalFocusMinutes p \<ge> 30 then streak p + 1 else 0))"

definition freshStats :: "dateKey \<Rightarrow> int \<Rightarrow> DailyStats" where
  "freshStats today str =
    \<lparr>date = today, totalFocusMinutes = 0, sessionsCompleted = 0, totalTabSwitches = 0,
     totalDistractionVisits = 0, totalDistractionSeconds = 0, streak = str\<rparr>"

definition getDailyStats :: "Env \<Rightarrow> World \<Rightarrow> DailyStats \<times> World" where
  "getDailyStats env w =
    (let today = todayKey env; stored = focusStats w in
     case stored of
       None \<Rightarrow>
         (let fresh = freshStats today (calcStreak env stored)
          in (fresh, w\<lparr>focusStats := Some fresh\<rparr>))
     | Some st \<Rightarrow>
         if date st \<noteq> today then
           (let fresh = freshStats today (calcStreak env stored)
            in (fresh, w\<lparr>focusStats := Some fresh\<rparr>))
         else (st, w))"

definition updateDailyStats :: "Env \<Rightarrow> SessionObject \<Rightarrow> int \<Rightarrow> World \<Rightarrow> World" where
  "updateDailyStats env session sc w =
    (case getDailyStats env w of (stats, w1) \<Rightarrow>
      (let focusMins = Math_round (of_int (duration_s session) / 60);
           next = stats\<lparr>
             totalFocusMinutes := totalFocusMinutes stats + focusMins,
             sessionsCompleted := sessionsCompleted stats + 1,
             totalTabSwitches := totalTabSwitches stats + orZero (tabSwitchCount session),
             totalDistractionVisits :=
               totalDistractionVisits stats + orZero (distractionVisits session),
             totalDistractionSeconds :=
               totalDistractionSeconds stats + orZero (distractionSeconds session)\<rparr>
       in w1\<lparr>focusStats := Some next\<rparr>))"

definition emptyDay :: DayAggregate where
  "emptyDay =
    \<lparr>focusMinutes = 0, sessions_d = 0, distractionMinutes = 0, totalScore = 0,
     scoreCount = 0,
     qualityCounts = map_of [(''Deep Work'', 0), (''Focused'', 0), (''Fragmented'', 0),
                             (''Distracted'', 0)]\<rparr>"

definition updateWeeklyData ::
  "Env \<Rightarrow> SessionObject \<Rightarrow> int \<Rightarrow> string \<Rightarrow> World \<Rightarrow> World" where
  "updateWeeklyData env session sc ql w =
    (case getWeeklyData env w of (weekly, w1) \<Rightarrow>
      (let today = todayKey env;
           prev = (case days weekly today of None \<Rightarrow> emptyDay | Some p \<Rightarrow> p);
           qc = (qualityCounts prev)(ql \<mapsto> orZero (qualityCounts prev ql) + 1);
           entry = \<lparr>
             focusMinutes = focusMinutes prev + Math_round (of_int (duration_s session) / 60),
             sessions_d = sessions_d prev + 1,
             distractionMinutes = distractionMinutes prev
               + Math_round (of_int (orZero (distractionSeconds session)) / 60),
             totalScore = totalScore prev + sc,
             scoreCount = scoreCount prev + 1,
             qualityCounts = qc\<rparr>
       in w1\<lparr>weeklyData := Some (weekly\<lparr>days := (days weekly)(today \<mapsto> entry)\<rparr>)\<rparr>))"

section \<open>distractionTracking\<close>

text \<open>\<open>extractDomain\<close> takes the \<open>hostname\<close> that \<open>new URL(url)\<close> yields, \<open>None\<close> when the
  constructor throws.\<close>

definition extractDomain :: "string option \<Rightarrow> string" where
  "extractDomain url =
    (case url of
       None \<Rightarrow> []
     | Some hostname \<Rightarrow>
         if prefix ''www.'' hostname then drop 4 hostname else hostname)"


definition leaveDistraction :: "Env \<Rightarrow> World \<Rightarrow> World" where
  "leaveDistraction env w =
    (case distractionStart w of
       None \<Rightarrow> w
     | Some started \<Rightarrow>
         (let elapsed = Math_round (of_int (now env - started) / 1000);
              w1 = w\<lparr>distractionStart := None, distractionTabId := None\<rparr>;
              state = getState w1
          in case currentSession state of
               None \<Rightarrow> w1
             | Some cs \<Rightarrow>
                 patchState (\<lambda>s. s\<lparr>currentSession := Some (addDistractionTime cs elapsed)\<rparr>) w1))"

text \<open>
  \<open>emit\<close> from a core module, in the world of the timer: the event goes to the log, and
  the subscribers that \<open>bootstrap\<close> installs run. Of these, the session-end subscriber
  of \<open>distractionTracking\<close> is the one that acts on the modelled world; the subscribers
  of \<open>insightsEngine\<close> (the pattern store) and \<open>visualEnforcement\<close> (messages to tabs)
  act outside it.
\<close>

definition emitW :: "Env \<Rightarrow> string \<Rightarrow> Payload \<Rightarrow> World \<Rightarrow> World" where
  "emitW env hookName payload w =
    (let w1 = w\<lparr>emitted := emitted w @ [(hookName, payload)]\<rparr>
     in if hookName = HOOK_SESSION_END then leaveDistraction env w1 else w1)"

definition enterDistraction :: "Env \<Rightarrow> int \<Rightarrow> string option \<Rightarrow> World \<Rightarrow> World" where
  "enterDistraction env tabId url w =
    (let w1 = w\<lparr>distractionStart := Some (now env), distractionTabId := Some tabId\<rparr>;
         state = getState w1
     in case currentSession state of
          None \<Rightarrow> w1
        | Some cs \<Rightarrow>
            (let domain = extractDomain url;
                 updated = recordDistractionVisit cs domain;
                 w2 = patchState (\<lambda>s. s\<lparr>currentSession := Some updated\<rparr>) w1
             in emitW env HOOK_DISTRACTION (PDistraction domain tabId) w2))"


section \<open>timerEngine\<close>

definition ALARM_COMPLETE :: string where "ALARM_COMPLETE = ''focusComplete''"
definition ALARM_TICK :: string where "ALARM_TICK = ''focusTick''"

definition updateBadge :: "Status \<Rightarrow> int \<Rightarrow> World \<Rightarrow> World" where
  "updateBadge st rem w =
    (if st = Running then
       w\<lparr>badgeText := BadgeMinutes (Math_ceil (of_int rem / 60)), badgeColor := Some ''#818cf8''\<rparr>
     else if st = Paused then
       w\<lparr>badgeText := BadgePauseGlyph, badgeColor := Some ''#64748b''\<rparr>
     else w\<lparr>badgeText := BadgeEmpty\<rparr>)"

definition setAlarms :: "int \<Rightarrow> World \<Rightarrow> World" where
  "setAlarms durationSeconds w =
    w\<lparr>alarms := (alarms w)
        (ALARM_COMPLETE \<mapsto> DelayInMinutes (of_int durationSeconds / 60),
         ALARM_TICK \<mapsto> PeriodInMinutes 1)\<rparr>"

definition clearAlarms :: "World \<Rightarrow> World" where
  "clearAlarms w = w\<lparr>alarms := (alarms w)(ALARM_COMPLETE := None, ALARM_TICK := None)\<rparr>"

text \<open>The remaining time as \<open>pause\<close>, \<open>tick\<close> and \<open>recover\<close> each compute it from the wall
  clock; \<open>now - state.startedAt\<close> reads a \<open>null\<close> start as 0.\<close>

definition elapsedAt :: "int \<Rightarrow> FocusState \<Rightarrow> int" where
  "elapsedAt t state = (t - orZero (startedAt state)) div 1000 + elapsedBeforePause state"

definition remainingAt :: "int \<Rightarrow> FocusState \<Rightarrow> int" where
  "remainingAt t state = max 0 (duration state - elapsedAt t state)"

definition start :: "Env \<Rightarrow> int \<Rightarrow> World \<Rightarrow> World" where
  "start env dur w =
    (let session = createSession env dur;
         w1 = patchState (\<lambda>s. s\<lparr>
                status := Running, duration := dur, remaining := dur,
                startedAt := Some (now env), pausedAt := None, elapsedBeforePause := 0,
                pendingReflection := None, currentSession := Some session\<rparr>) w;
         w2 = setAlarms dur w1;
         w3 = updateBadge Running dur w2;
         w4 = emitW env HOOK_SESSION_START (PSessionStart session dur) w3
     in emitW env HOOK_FOCUS_MODE_ENABLED PEmpty w4)"

definition pause :: "Env \<Rightarrow> World \<Rightarrow> World" where
  "pause env w =
    (let state = getState w in
     if status state \<noteq> Running then w
     else
       (let nowv = now env;
            elapsed = elapsedAt nowv state;
            rem = max 0 (duration state - elapsed);
            w1 = patchState (\<lambda>s. s\<lparr>
                   status := Paused, pausedAt := Some nowv, remaining := rem,
                   elapsedBeforePause := elapsed,
                   currentSession :=
                     (case currentSession state of
                        Some cs \<Rightarrow> Some (markInterrupted cs)
                      | None \<Rightarrow> None)\<rparr>) w;
            w2 = clearAlarms w1
        in updateBadge Paused rem w2))"

definition resume :: "Env \<Rightarrow> World \<Rightarrow> World" where
  "resume env w =
    (let state = getState w in
     if status state \<noteq> Paused then w
     else
       (let w1 = patchState (\<lambda>s. s\<lparr>
                   status := Running, startedAt := Some (now env), pausedAt := None\<rparr>) w;
            w2 = setAlarms (remaining state) w1
        in updateBadge Running (remaining state) w2))"

definition reset :: "Env \<Rightarrow> World \<Rightarrow> World" where
  "reset env w =
    (let state = getState w;
         w1 = clearAlarms w;
         w2 = patchState (\<lambda>s. defaultState\<lparr>
                duration := duration state, remaining := duration state\<rparr>) w1;
         w3 = updateBadge Idle 0 w2
     in emitW env HOOK_FOCUS_MODE_DISABLED PEmpty w3)"




section \<open>background.js: the wiring\<close>




datatype Message = MsgStart int | MsgPause | MsgResume | MsgReset
  | MsgContentOverlayReturn | MsgContentOverlayContinue | MsgQueryState

fun handleMessage :: "Env \<Rightarrow> Message \<Rightarrow> World \<Rightarrow> World" where
  "handleMessage env (MsgStart dur) w = snd (getDailyStats env (start env dur w))"
| "handleMessage env MsgPause w = snd (getDailyStats env (pause env w))"
| "handleMessage env MsgResume w = snd (getDailyStats env (resume env w))"
| "handleMessage env MsgReset w =
     snd (getDailyStats env (reset env (leaveDistraction env w)))"
| "handleMessage env MsgContentOverlayReturn w = leaveDistraction env w"
| "handleMessage env MsgContentOverlayContinue w = w"
| "handleMessage env MsgQueryState w = snd (getDailyStats env w)"



definition initialWorld :: World where
  "initialWorld =
    \<lparr>focusState = None, sessions = [], focusStats = None, weeklyData = None,
     alarms = Map.empty, badgeText = BadgeEmpty, badgeColor = None,
     distractionStart = None, distractionTabId = None, emitted = []\<rparr>"


definition idle_without_session :: "FocusState \<Rightarrow> bool" where
  "idle_without_session s = (status s = Idle \<longrightarrow> currentSession s = None)"

section \<open>Concrete scenarios\<close>

definition env_at :: "int \<Rightarrow> Env" where
  "env_at t = \<lparr>now = t, tzOffsetMinutes = 0, random4 = ''k3x9''\<rparr>"


text \<open>A 25-minute session started at instant 0; the same session with a distracting tab
  opened after one second; the session paused after one minute.\<close>

definition runningWorld :: World where
  "runningWorld = start (env_at 0) 1500 initialWorld"

definition distractedWorld :: World where
  "distractedWorld = enterDistraction (env_at 1000) 7 (Some ''www.youtube.com'') runningWorld"


text \<open>\<open>enterDistraction\<close> called five seconds in, with no session active.\<close>

definition staleIntervalWorld :: World where
  "staleIntervalWorld = enterDistraction (env_at 5000) 7 (Some ''www.youtube.com'') initialWorld"


text \<open>2024-01-01T23:30:00Z, a Monday evening in UTC, seen from a zone one hour east of
  UTC, where it is already Tuesday 2024-01-02, 00:30. Day 19723 is 2024-01-01.\<close>

definition lateEvening :: Env where
  "lateEvening = \<lparr>now = 1704151800000, tzOffsetMinutes = 60, random4 = ''k3x9''\<rparr>"




section \<open>Scoring: the formula\<close>

lemma Math_round_of_int: "Math_round (of_int n) = n"
proof -
  have "\<lfloor>(of_int n :: rat) + 1 / 2\<rfloor> = n"
    by (rule floor_unique) simp_all
  then show ?thesis by (simp add: Math_round_def)
qed






section \<open>Event bus: isolation of handlers\<close>


lemma wrap_effect:
  "fst (wrap source hookName fn payload w) =
    (case fn payload w of
       (w', None) \<Rightarrow> w'
     | (w', Some err) \<Rightarrow> w'\<lparr>console := console w' @ [HandlerError source hookName err]\<rparr>)"
  by (simp add: wrap_def split: prod.splits option.splits)















section \<open>Calendar keys: UTC and local dates\<close>

lemma todayKey_ignores_zone: "todayKey (env\<lparr>tzOffsetMinutes := z\<rparr>) = todayKey env"
  by (simp add: todayKey_def)

lemma getDay_lateEvening: "getDay lateEvening (now lateEvening) = 2"
  by (simp add: getDay_def localDate_def lateEvening_def msPerDay_def)

text \<open>
  C2. The keys are the UTC date, not the local one. \<open>todayKey\<close> does not depend on the
  zone at all. On 2024-01-01 at 23:30 UTC, in a zone one hour east of UTC, the local
  date is 2024-01-02 (day 19724), but \<open>todayKey\<close> is 2024-01-01 (day 19723). The
  yesterday key of \<open>calcStreak\<close> is 2023-12-31 (day 19722) where the local yesterday is
  2024-01-01, so a record of the local yesterday with 45 focus minutes and a streak of 3
  yields streak 0. The local week began on Monday 2024-01-01, but \<open>weekKey\<close> is
  2023-12-31, which is a Sunday (weekday 0).
\<close>

theorem C2_keys_follow_utc_date:
  "todayKey (env\<lparr>tzOffsetMinutes := z\<rparr>) = todayKey env
   \<and> localDate lateEvening (now lateEvening) = 19724
   \<and> todayKey lateEvening = 19723
   \<and> toISODate (setDateBack (now lateEvening) 1) = 19722
   \<and> calcStreak lateEvening
        (Some \<lparr>date = 19723, totalFocusMinutes = 45, sessionsCompleted = 2,
              totalTabSwitches = 0, totalDistractionVisits = 0,
              totalDistractionSeconds = 0, streak = 3\<rparr>) = 0
   \<and> localMonday lateEvening (now lateEvening) = 19723
   \<and> weekKey lateEvening = 19722
   \<and> (weekKey lateEvening + 4) mod 7 = 0"
proof -
  have a: "localDate lateEvening (now lateEvening) = 19724"
    by (simp add: localDate_def lateEvening_def msPerDay_def)
  have b: "todayKey lateEvening = 19723"
    by (simp add: todayKey_def toISODate_def lateEvening_def msPerDay_def)
  have c: "toISODate (setDateBack (now lateEvening) 1) = 19722"
    by (simp add: toISODate_def setDateBack_def lateEvening_def msPerDay_def)
  have d: "calcStreak lateEvening
        (Some \<lparr>date = 19723, totalFocusMinutes = 45, sessionsCompleted = 2,
              totalTabSwitches = 0, totalDistractionVisits = 0,
              totalDistractionSeconds = 0, streak = 3\<rparr>) = 0"
    by (simp add: calcStreak_def Let_def c)
  have e: "localMonday lateEvening (now lateEvening) = 19723"
    by (simp add: localMonday_def getDay_lateEvening a)
  have f: "weekKey lateEvening = 19722"
    by (simp add: weekKey_def Let_def getDay_lateEvening)
      (simp add: toISODate_def setDateBack_def lateEvening_def msPerDay_def)
  have g: "(weekKey lateEvening + 4) mod 7 = 0" by (simp add: f)
  from todayKey_ignores_zone [where env = env and z = z] a b c d e f g show ?thesis by (intro conjI)
qed

section \<open>Timer engine: the state after each operation\<close>

lemma getState_patchState [simp]: "getState (patchState f w) = f (getState w)"
  by (simp add: patchState_def getState_def)

lemma getState_clearAlarms [simp]: "getState (clearAlarms w) = getState w"
  by (simp add: clearAlarms_def getState_def)

lemma getState_setAlarms [simp]: "getState (setAlarms d w) = getState w"
  by (simp add: setAlarms_def getState_def)

lemma getState_updateBadge [simp]: "getState (updateBadge st r w) = getState w"
  by (simp add: updateBadge_def getState_def)

lemma getState_leaveDistraction:
  "getState (leaveDistraction env w) =
    (case distractionStart w of
       None \<Rightarrow> getState w
     | Some started \<Rightarrow>
        (case currentSession (getState w) of
           None \<Rightarrow> getState w
         | Some cs \<Rightarrow> (getState w)\<lparr>currentSession :=
             Some (addDistractionTime cs (Math_round (of_int (now env - started) / 1000)))\<rparr>))"
  by (simp add: leaveDistraction_def Let_def getState_def patchState_def split: option.splits)

lemma leaveDistraction_frame [simp]:
  "status (getState (leaveDistraction env w)) = status (getState w)"
  "duration (getState (leaveDistraction env w)) = duration (getState w)"
  "remaining (getState (leaveDistraction env w)) = remaining (getState w)"
  "startedAt (getState (leaveDistraction env w)) = startedAt (getState w)"
  "elapsedBeforePause (getState (leaveDistraction env w)) = elapsedBeforePause (getState w)"
  "pendingReflection (getState (leaveDistraction env w)) = pendingReflection (getState w)"
  "(currentSession (getState (leaveDistraction env w)) = None) = (currentSession (getState w) = None)"
  by (simp_all add: getState_leaveDistraction split: option.splits)

lemma getState_emitW_other:
  "hookName \<noteq> HOOK_SESSION_END \<Longrightarrow> getState (emitW env hookName p w) = getState w"
  by (simp add: emitW_def Let_def getState_def)

lemma hook_neq [simp]:
  "HOOK_SESSION_START \<noteq> HOOK_SESSION_END"
  "HOOK_FOCUS_MODE_ENABLED \<noteq> HOOK_SESSION_END"
  "HOOK_FOCUS_MODE_DISABLED \<noteq> HOOK_SESSION_END"
  "HOOK_TICK \<noteq> HOOK_SESSION_END"
  "HOOK_DISTRACTION \<noteq> HOOK_SESSION_END"
  "HOOK_SCORE_CALCULATED \<noteq> HOOK_SESSION_END"
  by (simp_all add: HOOK_SESSION_START_def HOOK_SESSION_END_def HOOK_FOCUS_MODE_ENABLED_def
      HOOK_FOCUS_MODE_DISABLED_def HOOK_TICK_def HOOK_DISTRACTION_def HOOK_SCORE_CALCULATED_def)

lemma getState_getDailyStats [simp]: "getState (snd (getDailyStats env w)) = getState w"
  by (simp add: getDailyStats_def Let_def getState_def split: option.splits)

lemma getState_reset:
  "getState (reset env w) = defaultState\<lparr>duration := duration (getState w), remaining := duration (getState w)\<rparr>"
  by (simp add: reset_def Let_def getState_emitW_other)

text \<open>
  C10. For every state, also one that holds a pending reflection that was not consumed,
  the state after \<open>reset\<close> has no pending reflection; the configured duration is kept
  and the remaining time is set to it. The same holds for the \<open>reset\<close> message of the
  service worker.
\<close>

theorem C10_reset_clears_pending_reflection:
  "pendingReflection (getState (reset env w)) = None
   \<and> duration (getState (reset env w)) = duration (getState w)
   \<and> remaining (getState (reset env w)) = duration (getState w)
   \<and> pendingReflection (getState (handleMessage env MsgReset w)) = None
   \<and> duration (getState (handleMessage env MsgReset w)) = duration (getState w)"
  by (simp add: getState_reset defaultState_def)


lemma sessions_frame [simp]:
  "sessions (patchState f w) = sessions w"
  "sessions (clearAlarms w) = sessions w"
  "sessions (setAlarms d w) = sessions w"
  "sessions (updateBadge st r w) = sessions w"
  "sessions (leaveDistraction env w) = sessions w"
  "sessions (emitW env h p w) = sessions w"
  "sessions (snd (getDailyStats env w)) = sessions w"
  "sessions (snd (getWeeklyData env w)) = sessions w"
  "sessions (updateDailyStats env s sc w) = sessions w"
  "sessions (updateWeeklyData env s sc ql w) = sessions w"
  by (simp_all add: patchState_def clearAlarms_def setAlarms_def updateBadge_def
      leaveDistraction_def emitW_def getDailyStats_def getWeeklyData_def
      updateDailyStats_def updateWeeklyData_def Let_def split: option.splits prod.splits)









lemma start_state:
  "getState (start env d w) = (getState w)\<lparr>
      status := Running, duration := d, remaining := d,
      startedAt := Some (now env), pausedAt := None, elapsedBeforePause := 0,
      pendingReflection := None, currentSession := Some (createSession env d)\<rparr>"
  by (simp add: start_def Let_def getState_emitW_other)

lemma pause_state:
  "status (getState w) = Running \<Longrightarrow>
   getState (pause env w) = (getState w)\<lparr>
      status := Paused, pausedAt := Some (now env),
      remaining := remainingAt (now env) (getState w),
      elapsedBeforePause := elapsedAt (now env) (getState w),
      currentSession := map_option markInterrupted (currentSession (getState w))\<rparr>"
  by (simp add: pause_def Let_def remainingAt_def split: option.splits)

lemma pause_noop: "status (getState w) \<noteq> Running \<Longrightarrow> pause env w = w"
  by (simp add: pause_def Let_def)

lemma resume_state:
  "status (getState w) = Paused \<Longrightarrow>
   getState (resume env w) = (getState w)\<lparr>
      status := Running, startedAt := Some (now env), pausedAt := None\<rparr>"
  by (simp add: resume_def Let_def)


lemma alarms_frame [simp]:
  "alarms (patchState f w) = alarms w"
  "alarms (updateBadge st r w) = alarms w"
  "alarms (leaveDistraction env w) = alarms w"
  "alarms (emitW env h p w) = alarms w"
  "alarms (snd (getDailyStats env w)) = alarms w"
  by (simp_all add: patchState_def updateBadge_def leaveDistraction_def emitW_def
      getDailyStats_def Let_def split: option.splits prod.splits)

lemma alarm_names [simp]: "ALARM_COMPLETE \<noteq> ALARM_TICK" "ALARM_TICK \<noteq> ALARM_COMPLETE"
  by (simp_all add: ALARM_COMPLETE_def ALARM_TICK_def)


lemma alarms_resume:
  "status (getState w) = Paused \<Longrightarrow>
   alarms (resume env w) ALARM_COMPLETE = Some (DelayInMinutes (of_int (remaining (getState w)) / 60))
   \<and> alarms (resume env w) ALARM_TICK = Some (PeriodInMinutes 1)"
  by (simp add: resume_def Let_def setAlarms_def)

lemma max_shift: "0 \<le> k \<Longrightarrow> max 0 (d - (k + e)) = max (0::int) (max 0 (d - e) - k)"
  by (simp add: max_def)

lemma remainingAt_resumed:
  assumes "startedAt s = Some t2" and "t2 \<le> t"
  shows "remainingAt t s = max 0 (max 0 (duration s - elapsedBeforePause s) - (t - t2) div 1000)"
proof -
  from assms(2) have k: "0 \<le> (t - t2) div 1000"
    by (simp add: pos_imp_zdiv_nonneg_iff)
  have "remainingAt t s = max 0 (duration s - ((t - t2) div 1000 + elapsedBeforePause s))"
    by (simp only: remainingAt_def elapsedAt_def assms(1) orZero_def option.case)
  also have "\<dots> = max 0 (max 0 (duration s - elapsedBeforePause s) - (t - t2) div 1000)"
    using k by (rule max_shift)
  finally show ?thesis .
qed

section \<open>Pause and resume\<close>

text \<open>
  C8. For every running state, \<open>pause\<close> at one instant and \<open>resume\<close> at any other: the
  elapsed time before the pause is absorbed into \<open>elapsedBeforePause\<close>, \<open>startedAt\<close> is
  the resume instant, the stored remaining time is the one recorded at the pause, and
  the remaining time recomputed from the wall clock at the resume instant equals it.
  At every later instant the recomputed remaining time is the one recorded at the pause
  less the whole seconds since the resume: the length of the pause does not enter.
\<close>

theorem C8_pause_resume_keeps_remaining:
  assumes "status (getState w) = Running"
  shows "status (getState (pause e1 w)) = Paused
       \<and> elapsedBeforePause (getState (pause e1 w)) = elapsedAt (now e1) (getState w)
       \<and> remaining (getState (pause e1 w)) = remainingAt (now e1) (getState w)
       \<and> status (getState (resume e2 (pause e1 w))) = Running
       \<and> startedAt (getState (resume e2 (pause e1 w))) = Some (now e2)
       \<and> elapsedBeforePause (getState (resume e2 (pause e1 w))) = elapsedAt (now e1) (getState w)
       \<and> remaining (getState (resume e2 (pause e1 w))) = remaining (getState (pause e1 w))
       \<and> remainingAt (now e2) (getState (resume e2 (pause e1 w)))
           = remaining (getState (pause e1 w))
       \<and> (\<forall>t. now e2 \<le> t \<longrightarrow>
            remainingAt t (getState (resume e2 (pause e1 w)))
              = max 0 (remaining (getState (pause e1 w)) - (t - now e2) div 1000))"
proof -
  let ?s = "getState w"
  let ?p = "getState (pause e1 w)"
  let ?r = "getState (resume e2 (pause e1 w))"
  have p: "?p = ?s\<lparr>status := Paused, pausedAt := Some (now e1),
      remaining := remainingAt (now e1) ?s,
      elapsedBeforePause := elapsedAt (now e1) ?s,
      currentSession := map_option markInterrupted (currentSession ?s)\<rparr>"
    using assms by (rule pause_state)
  have c1: "status ?p = Paused" by (simp add: p)
  have r: "?r = ?p\<lparr>status := Running, startedAt := Some (now e2), pausedAt := None\<rparr>"
    using c1 by (rule resume_state)
  have c2: "elapsedBeforePause ?p = elapsedAt (now e1) ?s" by (simp add: p)
  have c3: "remaining ?p = remainingAt (now e1) ?s" by (simp add: p)
  have c4: "status ?r = Running" by (simp add: r)
  have c5: "startedAt ?r = Some (now e2)" by (simp add: r)
  have c6: "elapsedBeforePause ?r = elapsedAt (now e1) ?s" by (simp add: r c2)
  have c7: "remaining ?r = remaining ?p" by (simp add: r)
  have dur: "duration ?r = duration ?s" by (simp add: r p)
  have rp: "remaining ?p = max 0 (duration ?r - elapsedBeforePause ?r)"
    by (simp only: c3 c6 dur remainingAt_def)
  have later: "remainingAt t ?r = max 0 (remaining ?p - (t - now e2) div 1000)"
    if "now e2 \<le> t" for t
    using remainingAt_resumed [OF c5 that] by (simp only: rp)
  have c8: "remainingAt (now e2) ?r = remaining ?p"
  proof -
    have "remainingAt (now e2) ?r = max 0 (remaining ?p - (now e2 - now e2) div 1000)"
      by (rule later) simp
    also have "\<dots> = max 0 (remaining ?p)" by simp
    also have "\<dots> = remaining ?p" by (simp add: rp)
    finally show ?thesis .
  qed
  show ?thesis
    by (intro conjI allI impI c1 c2 c3 c4 c5 c6 c7 c8 later)
qed

lemma status_runningWorld: "status (getState runningWorld) = Running"
  by (simp add: runningWorld_def start_state)

text \<open>
  C8, at a concrete run: a 25-minute session paused after 10 minutes and resumed an hour
  later has 900 seconds left at the resume, and 840 a minute after it.
\<close>

theorem C8_pause_resume_witness:
  "status (getState runningWorld) = Running
   \<and> remaining (getState (pause (env_at 600000) runningWorld)) = 900
   \<and> remaining (getState (resume (env_at 4200000) (pause (env_at 600000) runningWorld))) = 900
   \<and> remainingAt 4200000 (getState (resume (env_at 4200000) (pause (env_at 600000) runningWorld))) = 900
   \<and> remainingAt 4260000 (getState (resume (env_at 4200000) (pause (env_at 600000) runningWorld))) = 840"
proof -
  let ?p = "getState (pause (env_at 600000) runningWorld)"
  let ?r = "getState (resume (env_at 4200000) (pause (env_at 600000) runningWorld))"
  note inst = C8_pause_resume_keeps_remaining [OF status_runningWorld,
      of "env_at 600000" "env_at 4200000"]
  have rem: "remainingAt (now (env_at 600000)) (getState runningWorld) = 900"
    by (simp add: runningWorld_def start_state remainingAt_def elapsedAt_def orZero_def env_at_def)
  from inst have "remaining ?p = remainingAt (now (env_at 600000)) (getState runningWorld)"
    by (elim conjE)
  with rem have a: "remaining ?p = 900" by simp
  from inst have "remaining ?r = remaining ?p"
    by (elim conjE)
  with a have b: "remaining ?r = 900" by simp
  from inst have "remainingAt (now (env_at 4200000)) ?r = remaining ?p"
    by (elim conjE)
  with a have c: "remainingAt 4200000 ?r = 900" by (simp add: env_at_def)
  from inst have "\<forall>t. now (env_at 4200000) \<le> t \<longrightarrow>
      remainingAt t ?r = max 0 (remaining ?p - (t - now (env_at 4200000)) div 1000)"
    by (elim conjE)
  then have "now (env_at 4200000) \<le> 4260000 \<longrightarrow>
      remainingAt 4260000 ?r = max 0 (remaining ?p - (4260000 - now (env_at 4200000)) div 1000)"
    by (rule spec)
  with a have d: "remainingAt 4260000 ?r = 840" by (simp add: env_at_def)
  from status_runningWorld a b c d show ?thesis by (intro conjI)
qed

section \<open>Pause and the open distraction interval\<close>

lemma distraction_frame [simp]:
  "distractionStart (patchState f w) = distractionStart w"
  "distractionStart (clearAlarms w) = distractionStart w"
  "distractionStart (setAlarms d w) = distractionStart w"
  "distractionStart (updateBadge st r w) = distractionStart w"
  "distractionStart (snd (getDailyStats env w)) = distractionStart w"
  "distractionTabId (patchState f w) = distractionTabId w"
  "distractionTabId (clearAlarms w) = distractionTabId w"
  "distractionTabId (setAlarms d w) = distractionTabId w"
  "distractionTabId (updateBadge st r w) = distractionTabId w"
  "distractionTabId (snd (getDailyStats env w)) = distractionTabId w"
  by (simp_all add: patchState_def clearAlarms_def setAlarms_def updateBadge_def
      getDailyStats_def Let_def split: option.splits)

lemma distraction_emitW_other:
  "h \<noteq> HOOK_SESSION_END \<Longrightarrow> distractionStart (emitW env h p w) = distractionStart w"
  "h \<noteq> HOOK_SESSION_END \<Longrightarrow> distractionTabId (emitW env h p w) = distractionTabId w"
  by (simp_all add: emitW_def Let_def)

lemma distractionStart_pause: "distractionStart (pause env w) = distractionStart w"
  by (simp add: pause_def Let_def)

lemma distractionSeconds_pause:
  "map_option distractionSeconds (currentSession (getState (pause env w)))
    = map_option distractionSeconds (currentSession (getState w))"
  by (cases "status (getState w) = Running")
    (simp_all add: pause_state pause_noop markInterrupted_def option.map_comp comp_def)

lemma getState_enterDistraction:
  "getState (enterDistraction env tabId url w) =
    (case currentSession (getState w) of
       None \<Rightarrow> getState w
     | Some cs \<Rightarrow> (getState w)\<lparr>currentSession :=
         Some (recordDistractionVisit cs (extractDomain url))\<rparr>)"
  by (simp add: enterDistraction_def Let_def getState_def patchState_def emitW_def
      HOOK_DISTRACTION_def HOOK_SESSION_END_def split: option.splits)

lemma distractionStart_enterDistraction:
  "distractionStart (enterDistraction env tabId url w) = Some (now env)"
  "distractionTabId (enterDistraction env tabId url w) = Some tabId"
  by (simp_all add: enterDistraction_def Let_def distraction_emitW_other split: option.splits)

lemma Math_round_numeral [simp]: "Math_round (numeral n) = numeral n"
  using Math_round_of_int [of "numeral n"] by simp

lemma Math_round_div_1000: "Math_round (of_int s / 1000) = (s + 500) div 1000"
proof -
  have "Math_round (of_int s / 1000) = \<lfloor>(of_int (s + 500) :: rat) / of_int 1000\<rfloor>"
    unfolding Math_round_def by (rule arg_cong [where f = floor]) simp
  also have "\<dots> = (s + 500) div 1000"
    by (rule floor_divide_of_int_eq)
  finally show ?thesis .
qed

lemma getState_initialWorld: "getState initialWorld = defaultState"
  by (simp add: getState_def initialWorld_def)

lemma msgPause_distractionStart:
  "distractionStart (handleMessage env MsgPause w) = distractionStart w"
  by (simp add: distractionStart_pause)

lemma msgPause_distractionSeconds:
  "map_option distractionSeconds (currentSession (getState (handleMessage env MsgPause w)))
     = map_option distractionSeconds (currentSession (getState w))"
  by (simp add: distractionSeconds_pause)

lemma getState_runningWorld:
  "getState runningWorld = defaultState\<lparr>
      status := Running, duration := 1500, remaining := 1500,
      startedAt := Some 0, pausedAt := None, elapsedBeforePause := 0,
      pendingReflection := None, currentSession := Some (createSession (env_at 0) 1500)\<rparr>"
  by (simp add: runningWorld_def start_state getState_initialWorld env_at_def)

lemma getState_distractedWorld:
  "getState distractedWorld = (getState runningWorld)\<lparr>currentSession :=
      Some (recordDistractionVisit (createSession (env_at 0) 1500) ''youtube.com'')\<rparr>"
  by (simp add: distractedWorld_def getState_enterDistraction getState_runningWorld
      extractDomain_def)

text \<open>
  C3. \<open>pause\<close>, and the \<open>pause\<close> message of the service worker, never touch the open
  distraction interval nor the distracted seconds of the session. In the session with a
  distracting tab open since second 1, the \<open>pause\<close> message at second 61 leaves the
  state paused with the interval still open since second 1 and 0 distracted seconds,
  where a flush at that instant would have closed it and recorded 60 seconds.
\<close>

theorem C3_pause_leaves_interval_open:
  "distractionStart (handleMessage env MsgPause w) = distractionStart w
   \<and> map_option distractionSeconds (currentSession (getState (handleMessage env MsgPause w)))
       = map_option distractionSeconds (currentSession (getState w))
   \<and> status (getState distractedWorld) = Running
   \<and> distractionStart distractedWorld = Some 1000
   \<and> map_option distractionSeconds (currentSession (getState distractedWorld)) = Some (Some 0)
   \<and> status (getState (handleMessage (env_at 61000) MsgPause distractedWorld)) = Paused
   \<and> distractionStart (handleMessage (env_at 61000) MsgPause distractedWorld) = Some 1000
   \<and> map_option distractionSeconds
        (currentSession (getState (handleMessage (env_at 61000) MsgPause distractedWorld)))
       = Some (Some 0)
   \<and> map_option distractionSeconds
        (currentSession (getState (leaveDistraction (env_at 61000) distractedWorld)))
       = Some (Some 60)"
proof -
  note g1 = msgPause_distractionStart
  note g2 = msgPause_distractionSeconds
  have st: "status (getState distractedWorld) = Running"
    by (simp add: getState_distractedWorld getState_runningWorld)
  have ds: "distractionStart distractedWorld = Some 1000"
    by (simp add: distractedWorld_def distractionStart_enterDistraction env_at_def)
  have secs: "map_option distractionSeconds (currentSession (getState distractedWorld)) = Some (Some 0)"
    by (simp add: getState_distractedWorld recordDistractionVisit_def createSession_def)
  have p1: "status (getState (handleMessage (env_at 61000) MsgPause distractedWorld)) = Paused"
    using st by (simp add: pause_state)
  have p2: "distractionStart (handleMessage (env_at 61000) MsgPause distractedWorld) = Some 1000"
    by (simp only: g1 ds)
  have p3: "map_option distractionSeconds
        (currentSession (getState (handleMessage (env_at 61000) MsgPause distractedWorld)))
       = Some (Some 0)"
    by (simp only: g2 secs)
  have p4: "map_option distractionSeconds
        (currentSession (getState (leaveDistraction (env_at 61000) distractedWorld)))
       = Some (Some 60)"
    by (simp add: getState_leaveDistraction ds getState_distractedWorld addDistractionTime_def
        recordDistractionVisit_def createSession_def orZero_def env_at_def)
  show ?thesis
    by (intro conjI g1 g2 st ds secs p1 p2 p3 p4)
qed

section \<open>Entering a distraction\<close>

lemma emitted_frame [simp]:
  "emitted (patchState f w) = emitted w"
  "emitted (clearAlarms w) = emitted w"
  "emitted (setAlarms d w) = emitted w"
  "emitted (updateBadge st r w) = emitted w"
  "emitted (leaveDistraction env w) = emitted w"
  "emitted (snd (getDailyStats env w)) = emitted w"
  by (simp_all add: patchState_def clearAlarms_def setAlarms_def updateBadge_def
      leaveDistraction_def getDailyStats_def Let_def split: option.splits)

lemma enterDistraction_no_session:
  "currentSession (getState w) = None \<Longrightarrow>
   enterDistraction env tabId url w =
     w\<lparr>distractionStart := Some (now env), distractionTabId := Some tabId\<rparr>"
  by (simp add: enterDistraction_def Let_def getState_def)

lemma emitted_enterDistraction:
  "currentSession (getState w) = Some cs \<Longrightarrow>
   emitted (enterDistraction env tabId url w) =
     emitted w @ [(HOOK_DISTRACTION, PDistraction (extractDomain url) tabId)]"
  by (simp add: enterDistraction_def Let_def getState_def emitW_def
      HOOK_DISTRACTION_def HOOK_SESSION_END_def)

text \<open>
  What \<open>enterDistraction\<close> does. It always opens the interval at \<open>now\<close> for the tab.
  With no session that is all: the stored state, the history and the event log stay as
  they are. With a session it increments \<open>distractionVisits\<close> by exactly 1, records
  \<open>lastDistractionDomain\<close>, and emits the distraction hook with the domain and the tab.
\<close>

lemma enterDistraction_effect:
  "(case currentSession (getState w) of
      None \<Rightarrow>
        enterDistraction env tabId url w =
          w\<lparr>distractionStart := Some (now env), distractionTabId := Some tabId\<rparr>
    | Some cs \<Rightarrow>
        distractionStart (enterDistraction env tabId url w) = Some (now env)
      \<and> distractionTabId (enterDistraction env tabId url w) = Some tabId
      \<and> getState (enterDistraction env tabId url w) =
          (getState w)\<lparr>currentSession := Some (cs\<lparr>
             distractionVisits := Some (orZero (distractionVisits cs) + 1),
             lastDistractionDomain := Some (extractDomain url)\<rparr>)\<rparr>
      \<and> emitted (enterDistraction env tabId url w) =
          emitted w @ [(HOOK_DISTRACTION, PDistraction (extractDomain url) tabId)])"
proof (cases "currentSession (getState w)")
  case None
  then show ?thesis by (simp add: enterDistraction_no_session)
next
  case (Some cs)
  then show ?thesis
    by (simp add: distractionStart_enterDistraction getState_enterDistraction
        emitted_enterDistraction recordDistractionVisit_def)
qed

lemma enterDistraction_effect_example:
  "currentSession (getState runningWorld) = Some (createSession (env_at 0) 1500)
   \<and> distractionStart distractedWorld = Some 1000
   \<and> map_option distractionVisits (currentSession (getState distractedWorld)) = Some (Some 1)
   \<and> map_option lastDistractionDomain (currentSession (getState distractedWorld))
       = Some (Some ''youtube.com'')
   \<and> emitted distractedWorld = emitted runningWorld @ [(HOOK_DISTRACTION, PDistraction ''youtube.com'' 7)]"
proof -
  have cs: "currentSession (getState runningWorld) = Some (createSession (env_at 0) 1500)"
    by (simp add: getState_runningWorld)
  have dom: "extractDomain (Some ''www.youtube.com'') = ''youtube.com''"
    by (simp add: extractDomain_def)
  show ?thesis
    using enterDistraction_effect [where w = runningWorld and env = "env_at 1000"
        and tabId = 7 and url = "Some ''www.youtube.com''"]
    by (simp add: cs dom distractedWorld_def createSession_def orZero_def env_at_def)
qed

lemma distractionStart_start: "distractionStart (start env d w) = distractionStart w"
  by (simp add: start_def Let_def distraction_emitW_other)

text \<open>
  C4. With no session active, \<open>enterDistraction\<close> changes no counter, leaves the stored
  state as it is and emits no hook, but it is not a no-op: it opens the interval. In the
  initial world, called five seconds in for tab 7, it leaves the interval open since
  second 5. A session started at second 100 then receives, on the flush at second 101,
  96 distracted seconds, 95 of them from before it began.
\<close>

theorem C4_interval_opened_without_session:
  "currentSession (getState initialWorld) = None
   \<and> distractionStart initialWorld = None
   \<and> getState staleIntervalWorld = getState initialWorld
   \<and> emitted staleIntervalWorld = emitted initialWorld
   \<and> distractionStart staleIntervalWorld = Some 5000
   \<and> distractionTabId staleIntervalWorld = Some 7
   \<and> map_option distractionSeconds (currentSession (getState
         (leaveDistraction (env_at 101000) (start (env_at 100000) 1500 staleIntervalWorld))))
       = Some (Some 96)"
proof -
  have none: "currentSession (getState initialWorld) = None"
    by (simp add: getState_initialWorld defaultState_def)
  have d0: "distractionStart initialWorld = None"
    by (simp add: initialWorld_def)
  have eq: "staleIntervalWorld =
      initialWorld\<lparr>distractionStart := Some 5000, distractionTabId := Some 7\<rparr>"
    using none by (simp add: staleIntervalWorld_def enterDistraction_no_session env_at_def)
  have st: "getState staleIntervalWorld = getState initialWorld"
    by (simp add: eq getState_def)
  have em: "emitted staleIntervalWorld = emitted initialWorld"
    by (simp add: eq)
  have ds: "distractionStart staleIntervalWorld = Some 5000"
    by (simp add: eq)
  have dt: "distractionTabId staleIntervalWorld = Some 7"
    by (simp add: eq)
  have leak: "map_option distractionSeconds (currentSession (getState
         (leaveDistraction (env_at 101000) (start (env_at 100000) 1500 staleIntervalWorld))))
       = Some (Some 96)"
    by (simp add: getState_leaveDistraction distractionStart_start ds start_state
        addDistractionTime_def createSession_def orZero_def env_at_def Math_round_div_1000)
  from none d0 st em ds dt leak show ?thesis by (intro conjI)
qed

section \<open>Wake-ups outside a running session\<close>








lemma sessions_start [simp]: "sessions (start env d w) = sessions w"
  by (simp add: start_def Let_def)

lemma sessions_pause [simp]: "sessions (pause env w) = sessions w"
  by (simp add: pause_def Let_def)





section \<open>Recovery after a cold start\<close>










section \<open>The invariant of the idle state\<close>












lemma inv_getDailyStats:
  "idle_without_session (getState w) \<Longrightarrow>
   idle_without_session (getState (snd (getDailyStats env w)))"
  by simp









end
